theory Spec2Isabelle
  imports Main "HOL-Library.Word"
begin

section \<open>JavaScript values\<close>

text \<open>
  The client handles values of type \<^verbatim>\<open>unknown\<close>: request bodies and decoded responses.
  They are modelled as trees. Numbers are the integers and \<^verbatim>\<open>NaN\<close>; fractional
  numbers and the infinities are outside the model. An object is the list of its own
  properties in the order \<^verbatim>\<open>Object.entries\<close> enumerates them, with distinct keys.
\<close>

datatype js_number = Finite int | NaN

datatype js_value =
    JUndefined
  | JNull
  | JBoolean bool
  | JNumber js_number
  | JString string
  | JArray "js_value list"
  | JObject "(string \<times> js_value) list"

text \<open>The \<^verbatim>\<open>typeof\<close> operator.\<close>

fun typeof :: "js_value \<Rightarrow> string" where
  "typeof JUndefined = ''undefined''"
| "typeof JNull = ''object''"
| "typeof (JBoolean b) = ''boolean''"
| "typeof (JNumber n) = ''number''"
| "typeof (JString s) = ''string''"
| "typeof (JArray xs) = ''object''"
| "typeof (JObject fs) = ''object''"

text \<open>
  Conversion to boolean, as the conditional operator applies it: \<^verbatim>\<open>undefined\<close>,
  \<^verbatim>\<open>null\<close>, \<^verbatim>\<open>false\<close>, \<^verbatim>\<open>0\<close>, \<^verbatim>\<open>NaN\<close> and the empty string are falsy, every
  other value (every object and array included) is truthy.
\<close>

fun truthy :: "js_value \<Rightarrow> bool" where
  "truthy JUndefined = False"
| "truthy JNull = False"
| "truthy (JBoolean b) = b"
| "truthy (JNumber (Finite i)) = (i \<noteq> 0)"
| "truthy (JNumber NaN) = False"
| "truthy (JString s) = (s \<noteq> [])"
| "truthy (JArray xs) = True"
| "truthy (JObject fs) = True"

text \<open>
  Decimal form of an integer, as template literals give it for integers below
  \<open>10\<^sup>2\<^sup>1\<close> in absolute value (an HTTP status is one).
\<close>

fun decimal :: "nat \<Rightarrow> string" where
  "decimal n = (if n < 10 then [''0123456789'' ! n]
                else decimal (n div 10) @ [''0123456789'' ! (n mod 10)])"

declare decimal.simps [simp del]

text \<open>Reading a string of digits back, to state that \<open>decimal\<close> is the decimal form.\<close>

definition of_decimal :: "string \<Rightarrow> nat" where
  "of_decimal s = foldl (\<lambda>acc c. 10 * acc + (of_char c - 48)) 0 s"

definition String_int :: "int \<Rightarrow> string" where
  "String_int i = (if i < 0 then CHR ''-'' # decimal (nat (- i)) else decimal (nat i))"

text \<open>\<^verbatim>\<open>String.prototype.includes\<close>: the needle occurs as a contiguous substring.\<close>

fun startsWith :: "string \<Rightarrow> string \<Rightarrow> bool" where
  "startsWith s [] = True"
| "startsWith [] (c # cs) = False"
| "startsWith (d # ds) (c # cs) = (d = c \<and> startsWith ds cs)"

fun str_includes :: "string \<Rightarrow> string \<Rightarrow> bool" where
  "str_includes [] needle = (needle = [])"
| "str_includes (c # cs) needle = (startsWith (c # cs) needle \<or> str_includes cs needle)"

section \<open>The error classes\<close>

text \<open>
  An error of the platform (a \<^verbatim>\<open>DOMException\<close>, a \<^verbatim>\<open>TypeError\<close>, a
  \<^verbatim>\<open>SyntaxError\<close>): its \<^verbatim>\<open>name\<close>, its \<^verbatim>\<open>message\<close>, and whether it is an instance of
  \<^verbatim>\<open>TypeError\<close>. All of them are instances of \<^verbatim>\<open>Error\<close>.
\<close>

datatype native_error =
  NativeError (err_name: string) (err_message: string) (instanceof_TypeError: bool)

text \<open>
  The fields of \<^verbatim>\<open>N8nApiError\<close>; the field \<^verbatim>\<open>method\<close> is \<open>err_method\<close> here, since
  the plain name is reserved in Isabelle.
\<close>

record N8nApiError =
  message :: string
  status :: int
  err_method :: string
  path :: string
  body :: js_value

text \<open>
  What a call can throw: one of the five SDK classes, or a platform error that passes
  through unchanged.
\<close>

datatype js_error =
    ApiError N8nApiError
  | N8nTimeoutError int
  | N8nAbortError
  | N8nConfigError string
  | N8nNetworkError string native_error
  | Uncaught native_error

definition isClientError :: "N8nApiError \<Rightarrow> bool" where
  "isClientError e = (status e \<ge> 400 \<and> status e < 500)"

definition isServerError :: "N8nApiError \<Rightarrow> bool" where
  "isServerError e = (status e \<ge> 500)"

definition isNotFound :: "N8nApiError \<Rightarrow> bool" where
  "isNotFound e = (status e = 404)"

definition isUnauthorized :: "N8nApiError \<Rightarrow> bool" where
  "isUnauthorized e = (status e = 401)"

definition isForbidden :: "N8nApiError \<Rightarrow> bool" where
  "isForbidden e = (status e = 403)"

definition isValidationError :: "N8nApiError \<Rightarrow> bool" where
  "isValidationError e = (status e = 400)"

definition isConflict :: "N8nApiError \<Rightarrow> bool" where
  "isConflict e = (status e = 409)"

section \<open>Configuration and construction\<close>

record N8nClientConfig =
  cfg_baseUrl :: string
  cfg_apiKey :: string
  cfg_timeout :: "int option"
  cfg_headers :: "(string \<times> string) list option"
  cfg_apiVersion :: "string option"

record HttpClient =
  baseUrl :: string
  apiKey :: string
  defaultTimeout :: int
  defaultHeaders :: "(string \<times> string) list"
  apiVersion :: string

text \<open>
  \<^verbatim>\<open>s.replace(/\/+$/, '')\<close>: the leftmost match of one or more slashes followed by the
  end of the string is the whole run of trailing slashes, which is removed.
\<close>

definition strip_trailing_slashes :: "string \<Rightarrow> string" where
  "strip_trailing_slashes s = rev (dropWhile (\<lambda>c. c = CHR ''/'') (rev s))"

text \<open>
  The constructor. Both fields are typed as strings, and the only falsy string is the
  empty one. The constructor has no access to the platform: it cannot reach the network.
\<close>

definition HttpClient_constructor :: "N8nClientConfig \<Rightarrow> js_error + HttpClient" where
  "HttpClient_constructor config =
     (if cfg_baseUrl config = [] then Inl (N8nConfigError ''baseUrl is required'')
      else if cfg_apiKey config = [] then Inl (N8nConfigError ''apiKey is required'')
      else Inr \<lparr> baseUrl = strip_trailing_slashes (cfg_baseUrl config),
                 apiKey = cfg_apiKey config,
                 defaultTimeout = (case cfg_timeout config of Some t \<Rightarrow> t | None \<Rightarrow> 30000),
                 defaultHeaders = (case cfg_headers config of Some h \<Rightarrow> h | None \<Rightarrow> []),
                 apiVersion = (case cfg_apiVersion config of Some v \<Rightarrow> v | None \<Rightarrow> ''v1'') \<rparr>)"

section \<open>URLs and query strings\<close>

text \<open>
  The platform's \<^verbatim>\<open>URL\<close> object after parsing: the serialisation of scheme, authority
  and path, the query (absent when the input had none), the list behind
  \<^verbatim>\<open>searchParams\<close>, and the fragment. Parsing itself belongs to the platform and is a
  parameter of the model (see \<open>platform\<close> below).
\<close>

record URL =
  url_head :: string
  url_query :: "string option"
  searchParams :: "(string \<times> string) list"
  url_fragment :: "string option"

text \<open>
  The \<^verbatim>\<open>application/x-www-form-urlencoded\<close> serialiser that \<^verbatim>\<open>URLSearchParams\<close> applies
  to names and values alike, over the bytes of the UTF-8 form of the string: letters,
  digits and \<^verbatim>\<open>* - . _\<close> stay, a space becomes \<^verbatim>\<open>+\<close>, every other byte becomes
  \<^verbatim>\<open>%XX\<close> in upper-case hexadecimal.
\<close>

definition form_unreserved :: "char \<Rightarrow> bool" where
  "form_unreserved c =
     (c \<in> set ''ABCDEFGHIJKLMNOPQRSTUVWXYZabcdefghijklmnopqrstuvwxyz0123456789*-._'')"

definition percent_encode_byte :: "char \<Rightarrow> string" where
  "percent_encode_byte c =
     [CHR ''%'', ''0123456789ABCDEF'' ! (of_char c div 16), ''0123456789ABCDEF'' ! (of_char c mod 16)]"

definition urlencode_char :: "char \<Rightarrow> string" where
  "urlencode_char c =
     (if c = CHR '' '' then ''+''
      else if form_unreserved c then [c]
      else percent_encode_byte c)"

definition urlencode :: "string \<Rightarrow> string" where
  "urlencode s = concat (map urlencode_char s)"

fun join :: "string \<Rightarrow> string list \<Rightarrow> string" where
  "join sep [] = []"
| "join sep [x] = x"
| "join sep (x # y # ys) = x @ sep @ join sep (y # ys)"

definition urlencoded_serialize :: "(string \<times> string) list \<Rightarrow> string" where
  "urlencoded_serialize ps = join ''&'' (map (\<lambda>(k, v). urlencode k @ ''='' @ urlencode v) ps)"

text \<open>
  \<^verbatim>\<open>url.searchParams.append(name, value)\<close>: the pair goes to the end of the list and the
  query of the URL becomes the serialisation of the whole list.
\<close>

definition searchParams_append :: "URL \<Rightarrow> string \<Rightarrow> string \<Rightarrow> URL" where
  "searchParams_append url name val =
     (let ps = searchParams url @ [(name, val)];
          serialized = urlencoded_serialize ps
      in url \<lparr> searchParams := ps,
               url_query := (if serialized = [] then None else Some serialized) \<rparr>)"

definition URL_toString :: "URL \<Rightarrow> string" where
  "URL_toString url =
     url_head url
     @ (case url_query url of None \<Rightarrow> [] | Some q \<Rightarrow> CHR ''?'' # q)
     @ (case url_fragment url of None \<Rightarrow> [] | Some f \<Rightarrow> CHR ''#'' # f)"

text \<open>
  A query value has type \<^verbatim>\<open>string | number | boolean | undefined\<close>. A number is any
  IEEE 754 double (fractions, infinities, the negative zero and \<^verbatim>\<open>NaN\<close> included), held
  as its 64 bits. The query mapping is the list that \<^verbatim>\<open>Object.entries\<close> returns for it:
  its keys are distinct, and they come in insertion order (JavaScript moves keys that are
  array indices to the front).
\<close>

type_synonym double = "64 word"

datatype query_value = QString string | QNumber double | QBoolean bool | QUndefined

type_synonym QueryParams = "(string \<times> query_value) list"

text \<open>
  \<^verbatim>\<open>String(value)\<close>. The string form of a number (\<^verbatim>\<open>Number::toString\<close> in radix 10, with
  its exponent notation from \<open>10\<^sup>2\<^sup>1\<close>) belongs to the platform and is the parameter
  \<open>toString\<close>.
\<close>

fun String_value :: "(double \<Rightarrow> string) \<Rightarrow> query_value \<Rightarrow> string" where
  "String_value toString (QString s) = s"
| "String_value toString (QNumber n) = toString n"
| "String_value toString (QBoolean b) = (if b then ''true'' else ''false'')"
| "String_value toString QUndefined = ''undefined''"

text \<open>The loop of \<^verbatim>\<open>buildUrl\<close> over \<^verbatim>\<open>Object.entries(query)\<close>.\<close>

fun append_entries :: "(double \<Rightarrow> string) \<Rightarrow> URL \<Rightarrow> QueryParams \<Rightarrow> URL" where
  "append_entries toString url [] = url"
| "append_entries toString url ((key, val) # rest) =
     append_entries toString
       (if val \<noteq> QUndefined then searchParams_append url key (String_value toString val)
        else url)
       rest"

section \<open>The platform\<close>

datatype http_method = GET | POST | PUT | DELETE | PATCH

fun method_name :: "http_method \<Rightarrow> string" where
  "method_name GET = ''GET''"
| "method_name POST = ''POST''"
| "method_name PUT = ''PUT''"
| "method_name DELETE = ''DELETE''"
| "method_name PATCH = ''PATCH''"

text \<open>The second argument of \<^verbatim>\<open>fetch\<close>; an absent body is \<open>None\<close>.\<close>

record RequestInit =
  init_method :: http_method
  init_headers :: "(string \<times> string) list"
  init_body :: "string option"

text \<open>
  A response: its status, the value of \<^verbatim>\<open>headers.get('content-type')\<close>, and what
  \<^verbatim>\<open>response.json()\<close> and \<^verbatim>\<open>response.text()\<close> settle to. Either read can reject,
  with a \<^verbatim>\<open>SyntaxError\<close> for a body that is not JSON or with the abort of the
  controller.
\<close>

record Response =
  resp_status :: int
  resp_content_type :: "string option"
  resp_json :: "native_error + js_value"
  resp_text :: "native_error + string"

definition ok :: "Response \<Rightarrow> bool" where
  "ok response = (200 \<le> resp_status response \<and> resp_status response \<le> 299)"

text \<open>
  What the client takes from its environment: the URL parser (\<open>None\<close> when
  \<^verbatim>\<open>new URL\<close> throws), \<^verbatim>\<open>JSON.stringify\<close>, the string form of a number, and
  \<^verbatim>\<open>fetch\<close>, which settles to a
  response or rejects. The timer and the listener on the external signal both abort the
  controller whose signal \<^verbatim>\<open>fetch\<close> receives; their effect is a rejection with a
  \<^verbatim>\<open>DOMException\<close> named \<^verbatim>\<open>AbortError\<close>.
\<close>

record platform =
  URL_parse :: "string \<Rightarrow> URL option"
  JSON_stringify :: "js_value \<Rightarrow> string"
  Number_toString :: "double \<Rightarrow> string"
  fetch :: "string \<Rightarrow> RequestInit \<Rightarrow> native_error + Response"

text \<open>
  The caller's \<^verbatim>\<open>AbortSignal\<close>: the value of its \<^verbatim>\<open>aborted\<close> flag when the
  \<^verbatim>\<open>catch\<close> block of the request reads it.
\<close>

record AbortSignal =
  aborted :: bool

record RequestOptions =
  ro_headers :: "(string \<times> string) list option"
  ro_timeout :: "int option"
  ro_signal :: "AbortSignal option"

record InternalRequestOptions =
  req_method :: http_method
  req_path :: string
  req_body :: js_value
  req_query :: "QueryParams option"
  req_headers :: "(string \<times> string) list option"
  req_timeout :: "int option"
  req_signal :: "AbortSignal option"

section \<open>The request\<close>

definition invalid_url :: native_error where
  "invalid_url = NativeError ''TypeError'' ''Invalid URL'' True"

definition buildUrl :: "platform \<Rightarrow> HttpClient \<Rightarrow> string \<Rightarrow> QueryParams option \<Rightarrow> js_error + string" where
  "buildUrl pf c p query =
     (case URL_parse pf (baseUrl c @ ''/api/'' @ apiVersion c @ p) of
        None \<Rightarrow> Inl (Uncaught invalid_url)
      | Some url \<Rightarrow>
          Inr (URL_toString (case query of None \<Rightarrow> url | Some q \<Rightarrow> append_entries (Number_toString pf) url q)))"

text \<open>
  Property access \<^verbatim>\<open>value[key]\<close> on a value that is neither \<^verbatim>\<open>undefined\<close> nor
  \<^verbatim>\<open>null\<close>, for a key that no prototype defines (the client reads \<^verbatim>\<open>message\<close>,
  \<^verbatim>\<open>error\<close>, \<^verbatim>\<open>data\<close> and \<^verbatim>\<open>nextCursor\<close>).
\<close>

fun get_prop :: "js_value \<Rightarrow> string \<Rightarrow> js_value" where
  "get_prop (JObject fs) k = (case map_of fs k of Some v \<Rightarrow> v | None \<Rightarrow> JUndefined)"
| "get_prop v k = JUndefined"

definition extractErrorMessage :: "js_value \<Rightarrow> int \<Rightarrow> string" where
  "extractErrorMessage b st =
     (if typeof b = ''object'' \<and> b \<noteq> JNull \<and> typeof (get_prop b ''message'') = ''string''
      then (case get_prop b ''message'' of JString m \<Rightarrow> m | _ \<Rightarrow> [])
      else if typeof b = ''object'' \<and> b \<noteq> JNull \<and> typeof (get_prop b ''error'') = ''string''
      then (case get_prop b ''error'' of JString m \<Rightarrow> m | _ \<Rightarrow> [])
      else if typeof b = ''string'' \<and> (case b of JString t \<Rightarrow> length t > 0 | _ \<Rightarrow> False)
      then (case b of JString t \<Rightarrow> t | _ \<Rightarrow> [])
      else ''HTTP '' @ String_int st @ '' error'')"

text \<open>Object spread: a key already present keeps its place and takes the new value.\<close>

fun set_prop :: "(string \<times> 'a) list \<Rightarrow> string \<Rightarrow> 'a \<Rightarrow> (string \<times> 'a) list" where
  "set_prop [] k v = [(k, v)]"
| "set_prop ((k', v') # ps) k v =
     (if k' = k then (k, v) # ps else (k', v') # set_prop ps k v)"

definition spread :: "(string \<times> 'a) list \<Rightarrow> (string \<times> 'a) list \<Rightarrow> (string \<times> 'a) list" where
  "spread obj src = foldl (\<lambda>acc (k, v). set_prop acc k v) obj src"

text \<open>The options object handed to \<^verbatim>\<open>fetch\<close>.\<close>

definition request_init :: "platform \<Rightarrow> HttpClient \<Rightarrow> InternalRequestOptions \<Rightarrow> RequestInit" where
  "request_init pf c options =
     \<lparr> init_method = req_method options,
       init_headers =
         spread
           (spread [(''Content-Type'', ''application/json''), (''X-N8N-API-KEY'', apiKey c)]
              (defaultHeaders c))
           (case req_headers options of None \<Rightarrow> [] | Some h \<Rightarrow> h),
       init_body =
         (if truthy (req_body options) then Some (JSON_stringify pf (req_body options))
          else None) \<rparr>"

definition read_body :: "Response \<Rightarrow> native_error + js_value" where
  "read_body response =
     (if (case resp_content_type response of
            None \<Rightarrow> False
          | Some contentType \<Rightarrow> str_includes contentType ''application/json'')
      then resp_json response
      else (case resp_text response of Inl e \<Rightarrow> Inl e | Inr t \<Rightarrow> Inr (JString t)))"

text \<open>The body of the \<^verbatim>\<open>try\<close> block.\<close>

definition try_block ::
  "platform \<Rightarrow> HttpClient \<Rightarrow> InternalRequestOptions \<Rightarrow> string \<Rightarrow> js_error + js_value" where
  "try_block pf c options url =
     (case fetch pf url (request_init pf c options) of
        Inl e \<Rightarrow> Inl (Uncaught e)
      | Inr response \<Rightarrow>
          if resp_status response = 204 then Inr JUndefined
          else (case read_body response of
                  Inl e \<Rightarrow> Inl (Uncaught e)
                | Inr responseBody \<Rightarrow>
                    if \<not> ok response
                    then Inl (ApiError
                           \<lparr> message = extractErrorMessage responseBody (resp_status response),
                             status = resp_status response,
                             err_method = method_name (req_method options),
                             path = req_path options,
                             body = responseBody \<rparr>)
                    else Inr responseBody))"

text \<open>
  The \<^verbatim>\<open>catch\<close> block: an API error is thrown again; an error named
  \<^verbatim>\<open>AbortError\<close> becomes an Abort error when the caller's signal reads as aborted and a
  Timeout error otherwise; a \<^verbatim>\<open>TypeError\<close> becomes a Network error; anything else is
  thrown again.
\<close>

fun catch_block :: "AbortSignal option \<Rightarrow> int \<Rightarrow> js_error \<Rightarrow> js_error" where
  "catch_block signal timeoutMs (ApiError e) = ApiError e"
| "catch_block signal timeoutMs (Uncaught e) =
     (if err_name e = ''AbortError''
      then (if (case signal of None \<Rightarrow> False | Some s \<Rightarrow> aborted s) then N8nAbortError
            else N8nTimeoutError timeoutMs)
      else if instanceof_TypeError e
      then N8nNetworkError (''Network error: '' @ err_message e) e
      else Uncaught e)"
| "catch_block signal timeoutMs e = e"

definition request :: "platform \<Rightarrow> HttpClient \<Rightarrow> InternalRequestOptions \<Rightarrow> js_error + js_value" where
  "request pf c options =
     (case buildUrl pf c (req_path options) (req_query options) of
        Inl e \<Rightarrow> Inl e
      | Inr url \<Rightarrow>
          (let timeoutMs = (case req_timeout options of Some t \<Rightarrow> t | None \<Rightarrow> defaultTimeout c)
           in case try_block pf c options url of
                Inl e \<Rightarrow> Inl (catch_block (req_signal options) timeoutMs e)
              | Inr v \<Rightarrow> Inr v))"

definition with_options ::
  "http_method \<Rightarrow> string \<Rightarrow> js_value \<Rightarrow> QueryParams option \<Rightarrow> RequestOptions option
     \<Rightarrow> InternalRequestOptions" where
  "with_options m p b q options =
     \<lparr> req_method = m, req_path = p, req_body = b, req_query = q,
       req_headers = (case options of None \<Rightarrow> None | Some ro \<Rightarrow> ro_headers ro),
       req_timeout = (case options of None \<Rightarrow> None | Some ro \<Rightarrow> ro_timeout ro),
       req_signal = (case options of None \<Rightarrow> None | Some ro \<Rightarrow> ro_signal ro) \<rparr>"

definition HttpClient_get ::
  "platform \<Rightarrow> HttpClient \<Rightarrow> string \<Rightarrow> QueryParams option \<Rightarrow> RequestOptions option
     \<Rightarrow> js_error + js_value" where
  "HttpClient_get pf c p query options = request pf c (with_options GET p JUndefined query options)"

definition HttpClient_post ::
  "platform \<Rightarrow> HttpClient \<Rightarrow> string \<Rightarrow> js_value \<Rightarrow> RequestOptions option \<Rightarrow> js_error + js_value" where
  "HttpClient_post pf c p b options = request pf c (with_options POST p b None options)"

definition HttpClient_put ::
  "platform \<Rightarrow> HttpClient \<Rightarrow> string \<Rightarrow> js_value \<Rightarrow> RequestOptions option \<Rightarrow> js_error + js_value" where
  "HttpClient_put pf c p b options = request pf c (with_options PUT p b None options)"

definition HttpClient_delete ::
  "platform \<Rightarrow> HttpClient \<Rightarrow> string \<Rightarrow> RequestOptions option \<Rightarrow> js_error + js_value" where
  "HttpClient_delete pf c p options = request pf c (with_options DELETE p JUndefined None options)"

definition HttpClient_patch ::
  "platform \<Rightarrow> HttpClient \<Rightarrow> string \<Rightarrow> js_value \<Rightarrow> RequestOptions option \<Rightarrow> js_error + js_value" where
  "HttpClient_patch pf c p b options = request pf c (with_options PATCH p b None options)"

section \<open>Resource wrappers: list operations\<close>

text \<open>
  Reading a property of \<^verbatim>\<open>undefined\<close> or \<^verbatim>\<open>null\<close> throws a \<^verbatim>\<open>TypeError\<close>; the
  wrappers do not catch it.
\<close>

definition member_access :: "js_value \<Rightarrow> string \<Rightarrow> js_error + js_value" where
  "member_access v k =
     (if v = JUndefined \<or> v = JNull
      then Inl (Uncaught (NativeError ''TypeError'' ''Cannot read properties'' True))
      else Inr (get_prop v k))"

text \<open>The object literal \<^verbatim>\<open>{ data: response.data, nextCursor: response.nextCursor }\<close>.\<close>

definition list_result :: "js_value \<Rightarrow> js_error + js_value" where
  "list_result response =
     (case member_access response ''data'' of
        Inl e \<Rightarrow> Inl e
      | Inr d \<Rightarrow>
          (case member_access response ''nextCursor'' of
             Inl e \<Rightarrow> Inl e
           | Inr n \<Rightarrow> Inr (JObject [(''data'', d), (''nextCursor'', n)])))"

definition ExecutionsResource_list ::
  "platform \<Rightarrow> HttpClient \<Rightarrow> QueryParams option \<Rightarrow> RequestOptions option \<Rightarrow> js_error + js_value" where
  "ExecutionsResource_list pf c params options =
     (case HttpClient_get pf c ''/executions'' params options of
        Inl e \<Rightarrow> Inl e
      | Inr response \<Rightarrow> list_result response)"

definition UsersResource_list ::
  "platform \<Rightarrow> HttpClient \<Rightarrow> QueryParams option \<Rightarrow> RequestOptions option \<Rightarrow> js_error + js_value" where
  "UsersResource_list pf c params options =
     (case HttpClient_get pf c ''/users'' params options of
        Inl e \<Rightarrow> Inl e
      | Inr response \<Rightarrow> list_result response)"

definition TagsResource_list ::
  "platform \<Rightarrow> HttpClient \<Rightarrow> QueryParams option \<Rightarrow> RequestOptions option \<Rightarrow> js_error + js_value" where
  "TagsResource_list pf c params options =
     (case HttpClient_get pf c ''/tags'' params options of
        Inl e \<Rightarrow> Inl e
      | Inr response \<Rightarrow> list_result response)"

definition CredentialsResource_list ::
  "platform \<Rightarrow> HttpClient \<Rightarrow> QueryParams option \<Rightarrow> RequestOptions option \<Rightarrow> js_error + js_value" where
  "CredentialsResource_list pf c params options =
     (case HttpClient_get pf c ''/credentials'' params options of
        Inl e \<Rightarrow> Inl e
      | Inr response \<Rightarrow> list_result response)"

definition WorkflowsResource_list ::
  "platform \<Rightarrow> HttpClient \<Rightarrow> QueryParams option \<Rightarrow> RequestOptions option \<Rightarrow> js_error + js_value" where
  "WorkflowsResource_list pf c params options =
     (case HttpClient_get pf c ''/workflows'' params options of
        Inl e \<Rightarrow> Inl e
      | Inr response \<Rightarrow> list_result response)"

definition VariablesResource_list ::
  "platform \<Rightarrow> HttpClient \<Rightarrow> QueryParams option \<Rightarrow> RequestOptions option \<Rightarrow> js_error + js_value" where
  "VariablesResource_list pf c params options =
     (case HttpClient_get pf c ''/variables'' params options of
        Inl e \<Rightarrow> Inl e
      | Inr response \<Rightarrow> list_result response)"

definition ProjectsResource_list ::
  "platform \<Rightarrow> HttpClient \<Rightarrow> QueryParams option \<Rightarrow> RequestOptions option \<Rightarrow> js_error + js_value" where
  "ProjectsResource_list pf c params options =
     (case HttpClient_get pf c ''/projects'' params options of
        Inl e \<Rightarrow> Inl e
      | Inr response \<Rightarrow> list_result response)"

section \<open>A mock platform\<close>

text \<open>
  The test-suite runs the client against a mock server at
  \<^verbatim>\<open>https://test-n8n.example.com\<close>. The same set-up serves here to run the model on
  concrete inputs: a URL parser for absolute \<^verbatim>\<open>https\<close> URLs that carry no query and no
  fragment and need no normalisation, the string forms of the two numbers that the
  specification and the test-suite send (the doubles 5 and 50), and a \<^verbatim>\<open>fetch\<close> that
  settles to one given outcome.
\<close>

definition mock_Number_toString :: "double \<Rightarrow> string" where
  "mock_Number_toString n =
     (if n = 0x4014000000000000 then ''5''
      else if n = 0x4049000000000000 then ''50''
      else ''NaN'')"

definition mock_URL_parse :: "string \<Rightarrow> URL option" where
  "mock_URL_parse s =
     (if startsWith s ''https://''
      then Some \<lparr> url_head = s, url_query = None, searchParams = [], url_fragment = None \<rparr>
      else None)"

definition mock_platform :: "(native_error + Response) \<Rightarrow> platform" where
  "mock_platform outcome =
     \<lparr> URL_parse = mock_URL_parse,
       JSON_stringify = (\<lambda>v. ''{}''),
       Number_toString = mock_Number_toString,
       fetch = (\<lambda>url init. outcome) \<rparr>"

definition TEST_CONFIG :: N8nClientConfig where
  "TEST_CONFIG =
     \<lparr> cfg_baseUrl = ''https://test-n8n.example.com'', cfg_apiKey = ''test-api-key'',
       cfg_timeout = None, cfg_headers = None, cfg_apiVersion = None \<rparr>"

definition TEST_CLIENT :: HttpClient where
  "TEST_CLIENT =
     \<lparr> baseUrl = ''https://test-n8n.example.com'', apiKey = ''test-api-key'',
       defaultTimeout = 30000, defaultHeaders = [], apiVersion = ''v1'' \<rparr>"

definition abort_error :: native_error where
  "abort_error = NativeError ''AbortError'' ''This operation was aborted'' False"

definition mock_response :: "int \<Rightarrow> string \<Rightarrow> (native_error + js_value) \<Rightarrow> string \<Rightarrow> Response" where
  "mock_response st contentType parsed raw =
     \<lparr> resp_status = st, resp_content_type = Some contentType,
       resp_json = parsed, resp_text = Inr raw \<rparr>"

definition syntax_error :: native_error where
  "syntax_error = NativeError ''SyntaxError'' ''Unexpected end of JSON input'' False"


section \<open>Helper lemmas\<close>

lemma dropWhile_replicate_append:
  "P x \<Longrightarrow> dropWhile P (replicate n x @ ys) = dropWhile P ys"
  by (induction n) simp_all

lemma strip_trailing_slashes_append:
  "strip_trailing_slashes (s @ replicate n CHR ''/'') = strip_trailing_slashes s"
  by (simp add: strip_trailing_slashes_def dropWhile_replicate_append)








lemma request_abort:
  assumes "buildUrl pf c (req_path options) (req_query options) = Inr url"
      and "try_block pf c options url = Inl (Uncaught e)"
      and "err_name e = ''AbortError''"
  shows "request pf c options =
           Inl (if (case req_signal options of None \<Rightarrow> False | Some s \<Rightarrow> aborted s)
                then N8nAbortError
                else N8nTimeoutError
                       (case req_timeout options of Some t \<Rightarrow> t | None \<Rightarrow> defaultTimeout c))"
  using assms by (simp add: request_def)

lemma extractErrorMessage_cases:
  "extractErrorMessage b st =
     (case b of
        JObject fs \<Rightarrow>
          (case map_of fs ''message'' of
             Some (JString m) \<Rightarrow> m
           | _ \<Rightarrow> (case map_of fs ''error'' of
                     Some (JString m) \<Rightarrow> m
                   | _ \<Rightarrow> ''HTTP '' @ String_int st @ '' error''))
      | JString t \<Rightarrow> (if t = [] then ''HTTP '' @ String_int st @ '' error'' else t)
      | _ \<Rightarrow> ''HTTP '' @ String_int st @ '' error'')"
  by (cases b) (auto simp: extractErrorMessage_def split: option.splits js_value.splits)

lemma request_non_2xx:
  assumes "buildUrl pf c (req_path options) (req_query options) = Inr url"
      and "fetch pf url (request_init pf c options) = Inr response"
      and "resp_status response < 200 \<or> 299 < resp_status response"
      and "read_body response = Inr b"
  shows "request pf c options =
           Inl (ApiError
             \<lparr> message = extractErrorMessage b (resp_status response),
               status = resp_status response,
               err_method = method_name (req_method options),
               path = req_path options,
               body = b \<rparr>)"
  using assms by (auto simp: request_def try_block_def ok_def)

lemma catch_block_config:
  "catch_block s t e = N8nConfigError m \<Longrightarrow> e = N8nConfigError m"
  by (cases e) (auto split: if_splits)

lemma try_block_not_config: "try_block pf c options url \<noteq> Inl (N8nConfigError m)"
  by (auto simp: try_block_def split: sum.splits)

lemma buildUrl_not_config: "buildUrl pf c p q \<noteq> Inl (N8nConfigError m)"
  by (simp add: buildUrl_def split: option.splits)

lemma request_not_config: "request pf c options \<noteq> Inl (N8nConfigError m)"
proof (cases "buildUrl pf c (req_path options) (req_query options)")
  case (Inl e)
  with buildUrl_not_config [of pf c "req_path options" "req_query options" m]
  show ?thesis by (simp add: request_def)
next
  case (Inr url)
  show ?thesis
  proof (cases "try_block pf c options url")
    case (Inl e)
    with try_block_not_config [of pf c options url m] have "e \<noteq> N8nConfigError m"
      by simp
    with catch_block_config have "catch_block s t e \<noteq> N8nConfigError m" for s t
      by blast
    with Inl Inr show ?thesis by (simp add: request_def)
  next
    case (Inr v)
    with \<open>buildUrl pf c (req_path options) (req_query options) = Inr url\<close>
    show ?thesis by (simp add: request_def)
  qed
qed

lemma digit_value: "d < 10 \<Longrightarrow> of_char (''0123456789'' ! d) - 48 = (d::nat)"
proof -
  assume "d < 10"
  then have "d = 0 \<or> d = 1 \<or> d = 2 \<or> d = 3 \<or> d = 4 \<or> d = 5 \<or> d = 6
      \<or> d = 7 \<or> d = 8 \<or> d = 9"
    by arith
  then show ?thesis
    by (elim disjE) simp_all
qed

lemma of_decimal_snoc: "of_decimal (s @ [c]) = 10 * of_decimal s + (of_char c - 48)"
  by (simp add: of_decimal_def)

lemma of_decimal_decimal: "of_decimal (decimal n) = n"
proof (induction n rule: decimal.induct)
  case (1 n)
  show ?case
  proof (cases "n < 10")
    case True
    have "decimal n = [''0123456789'' ! n]"
      using True by (subst decimal.simps) simp
    then show ?thesis
      using True by (simp add: of_decimal_def digit_value)
  next
    case False
    with 1 have ih: "of_decimal (decimal (n div 10)) = n div 10" by simp
    have "decimal n = decimal (n div 10) @ [''0123456789'' ! (n mod 10)]"
      using False by (subst decimal.simps) simp
    then show ?thesis
      using ih by (simp add: of_decimal_snoc digit_value)
  qed
qed




lemma list_result_envelope:
  "response \<noteq> JUndefined \<Longrightarrow> response \<noteq> JNull \<Longrightarrow>
   list_result response =
     Inr (JObject [(''data'', get_prop response ''data''),
                   (''nextCursor'', get_prop response ''nextCursor'')])"
  by (simp add: list_result_def member_access_def)

lemma mock_url:
  "buildUrl (mock_platform outcome) TEST_CLIENT
     (req_path (with_options m ''/test'' b None ro))
     (req_query (with_options m ''/test'' b None ro))
   = Inr ''https://test-n8n.example.com/api/v1/test''"
  by (simp add: with_options_def buildUrl_def mock_platform_def mock_URL_parse_def
        TEST_CLIENT_def URL_toString_def)

lemma mock_fetch: "fetch (mock_platform outcome) url init = outcome"
  by (simp add: mock_platform_def)

lemma String_int_403: "String_int 403 = ''403''"
  by code_simp

lemma String_int_500: "String_int 500 = ''500''"
  by code_simp

section \<open>Abort or timeout\<close>

text \<open>
  Claim C1: when the request fails with the abort of its controller (\<^verbatim>\<open>fetch\<close>, or the
  read of the body, rejects with an error named \<^verbatim>\<open>AbortError\<close>), the call raises an Abort
  error if the caller supplied a signal and that signal reads as aborted when the failure
  is handled, and otherwise a Timeout error that carries the effective timeout: the
  per-call override if there is one, the default of the client if not. The state of the
  timer plays no part.
\<close>

theorem abort_classification:
  assumes "buildUrl pf c (req_path options) (req_query options) = Inr url"
      and "fetch pf url (request_init pf c options) = Inl e
           \<or> (\<exists>response. fetch pf url (request_init pf c options) = Inr response
                 \<and> resp_status response \<noteq> 204 \<and> read_body response = Inl e)"
      and "err_name e = ''AbortError''"
  shows "request pf c options =
           Inl (if (case req_signal options of None \<Rightarrow> False | Some s \<Rightarrow> aborted s)
                then N8nAbortError
                else N8nTimeoutError
                       (case req_timeout options of Some t \<Rightarrow> t | None \<Rightarrow> defaultTimeout c))"
proof -
  from assms(2) have thrown: "try_block pf c options url = Inl (Uncaught e)"
    by (auto simp: try_block_def)
  show ?thesis by (rule request_abort [OF assms(1) thrown assms(3)])
qed

text \<open>
  The three cases on the mock platform: a caller's signal that is aborted, one that is not,
  and no signal at all with the default timeout.
\<close>

theorem abort_classification_witness:
  "request (mock_platform (Inl abort_error)) TEST_CLIENT
     (with_options GET ''/test'' JUndefined None
        (Some \<lparr> ro_headers = None, ro_timeout = Some 50, ro_signal = Some \<lparr> aborted = True \<rparr> \<rparr>))
     = Inl N8nAbortError
   \<and> request (mock_platform (Inl abort_error)) TEST_CLIENT
     (with_options GET ''/test'' JUndefined None
        (Some \<lparr> ro_headers = None, ro_timeout = Some 50, ro_signal = Some \<lparr> aborted = False \<rparr> \<rparr>))
     = Inl (N8nTimeoutError 50)
   \<and> request (mock_platform (Inl abort_error)) TEST_CLIENT
     (with_options GET ''/test'' JUndefined None None)
     = Inl (N8nTimeoutError 30000)"
proof -
  let ?pf = "mock_platform (Inl abort_error)"
  let ?url = "''https://test-n8n.example.com/api/v1/test''"
  have url: "buildUrl ?pf TEST_CLIENT (req_path (with_options GET ''/test'' JUndefined None ro))
               (req_query (with_options GET ''/test'' JUndefined None ro)) = Inr ?url" for ro
    by (simp add: with_options_def buildUrl_def mock_platform_def mock_URL_parse_def
          TEST_CLIENT_def URL_toString_def)
  have rej: "fetch ?pf ?url (request_init ?pf TEST_CLIENT (with_options GET ''/test'' JUndefined None ro))
               = Inl abort_error
             \<or> (\<exists>response. fetch ?pf ?url
                    (request_init ?pf TEST_CLIENT (with_options GET ''/test'' JUndefined None ro))
                    = Inr response
                  \<and> resp_status response \<noteq> 204 \<and> read_body response = Inl abort_error)" for ro
    by (simp add: mock_platform_def)
  have name: "err_name abort_error = ''AbortError''"
    by (simp add: abort_error_def)
  show ?thesis
    using abort_classification [OF url rej name,
            of "Some \<lparr> ro_headers = None, ro_timeout = Some 50, ro_signal = Some \<lparr> aborted = True \<rparr> \<rparr>"]
          abort_classification [OF url rej name,
            of "Some \<lparr> ro_headers = None, ro_timeout = Some 50, ro_signal = Some \<lparr> aborted = False \<rparr> \<rparr>"]
          abort_classification [OF url rej name, of None]
    by (simp add: with_options_def TEST_CLIENT_def)
qed

section \<open>Classification predicates of an API error\<close>

text \<open>
  Claim C2, as stated: for a status of 404 \<open>isNotFound\<close> is true and every other
  classification predicate is false. It fails: \<open>isClientError\<close> tests the range 400 to
  499 and holds at 404 as well.
\<close>

theorem not_found_is_client_error:
  "\<not> (isNotFound \<lparr>message = [], status = 404, err_method = [], path = [], body = JUndefined\<rparr>
      \<and> \<not> isClientError \<lparr>message = [], status = 404, err_method = [], path = [], body = JUndefined\<rparr>
      \<and> \<not> isServerError \<lparr>message = [], status = 404, err_method = [], path = [], body = JUndefined\<rparr>
      \<and> \<not> isUnauthorized \<lparr>message = [], status = 404, err_method = [], path = [], body = JUndefined\<rparr>
      \<and> \<not> isForbidden \<lparr>message = [], status = 404, err_method = [], path = [], body = JUndefined\<rparr>
      \<and> \<not> isValidationError \<lparr>message = [], status = 404, err_method = [], path = [], body = JUndefined\<rparr>
      \<and> \<not> isConflict \<lparr>message = [], status = 404, err_method = [], path = [], body = JUndefined\<rparr>)"
  by (simp add: isClientError_def isNotFound_def)

text \<open>
  Claim C2, amended: each predicate is true exactly when the status matches it (client
  error 400 to 499, server error from 500, not-found 404, unauthorized 401, forbidden
  403, validation 400, conflict 409). At 404 \<open>isNotFound\<close> and the range predicate
  \<open>isClientError\<close> are true and the five others false; at 401 \<open>isUnauthorized\<close> and
  \<open>isClientError\<close> are true and the five others false.
\<close>

theorem predicates_match_status:
  "isClientError e = (400 \<le> status e \<and> status e \<le> 499)
   \<and> isServerError e = (500 \<le> status e)
   \<and> isNotFound e = (status e = 404)
   \<and> isUnauthorized e = (status e = 401)
   \<and> isForbidden e = (status e = 403)
   \<and> isValidationError e = (status e = 400)
   \<and> isConflict e = (status e = 409)
   \<and> isNotFound (e\<lparr>status := 404\<rparr>) \<and> isClientError (e\<lparr>status := 404\<rparr>)
   \<and> \<not> isServerError (e\<lparr>status := 404\<rparr>) \<and> \<not> isUnauthorized (e\<lparr>status := 404\<rparr>)
   \<and> \<not> isForbidden (e\<lparr>status := 404\<rparr>) \<and> \<not> isValidationError (e\<lparr>status := 404\<rparr>)
   \<and> \<not> isConflict (e\<lparr>status := 404\<rparr>)
   \<and> isUnauthorized (e\<lparr>status := 401\<rparr>) \<and> isClientError (e\<lparr>status := 401\<rparr>)
   \<and> \<not> isServerError (e\<lparr>status := 401\<rparr>) \<and> \<not> isNotFound (e\<lparr>status := 401\<rparr>)
   \<and> \<not> isForbidden (e\<lparr>status := 401\<rparr>) \<and> \<not> isValidationError (e\<lparr>status := 401\<rparr>)
   \<and> \<not> isConflict (e\<lparr>status := 401\<rparr>)"
  by (simp add: isClientError_def isServerError_def isNotFound_def isUnauthorized_def
        isForbidden_def isValidationError_def isConflict_def) arith

section \<open>API errors for responses outside the 2xx range\<close>

text \<open>
  Claim C3, as stated: every response outside the 2xx range raises an API error whose
  message is the \<^verbatim>\<open>message\<close> field, else the \<^verbatim>\<open>error\<close> field, else the raw text of a
  body parsed as plain text, else \<^verbatim>\<open>HTTP {status} error\<close>. It fails on a status 500 in
  three ways: an empty plain-text body gives the fallback message and not the empty raw
  text; a body announced as JSON that does not parse makes the call throw the
  \<^verbatim>\<open>SyntaxError\<close> of the parser and no API error; a JSON body that is a string is taken as
  the message although it was not parsed as plain text.
\<close>

theorem empty_text_and_unparsed_bodies:
  "request (mock_platform (Inr (mock_response 500 ''text/plain'' (Inl syntax_error) [])))
     TEST_CLIENT (with_options GET ''/test'' JUndefined None None)
   = Inl (ApiError \<lparr> message = ''HTTP 500 error'', status = 500, err_method = ''GET'',
                      path = ''/test'', body = JString [] \<rparr>)
   \<and> request (mock_platform (Inr (mock_response 500 ''application/json'' (Inl syntax_error) [])))
     TEST_CLIENT (with_options GET ''/test'' JUndefined None None)
   = Inl (Uncaught syntax_error)
   \<and> request (mock_platform
        (Inr (mock_response 500 ''application/json'' (Inr (JString ''boom'')) ''boom'')))
     TEST_CLIENT (with_options GET ''/test'' JUndefined None None)
   = Inl (ApiError \<lparr> message = ''boom'', status = 500, err_method = ''GET'',
                      path = ''/test'', body = JString ''boom'' \<rparr>)"
  by code_simp

text \<open>
  Claim C3, amended: for every response whose status is outside the 2xx range and whose
  body is read without error, the call raises an API error that carries the status, the
  method, the path and the parsed body. Its message is the \<^verbatim>\<open>message\<close> field of a body
  that is an object if that field is a string, else its \<^verbatim>\<open>error\<close> field if that is a
  string, else the body itself if it is a non-empty string (plain text or a JSON
  string), else \<^verbatim>\<open>HTTP {status} error\<close>.
\<close>

theorem non_2xx_raises_api_error:
  assumes "buildUrl pf c (req_path options) (req_query options) = Inr url"
      and "fetch pf url (request_init pf c options) = Inr response"
      and "resp_status response < 200 \<or> 299 < resp_status response"
      and "read_body response = Inr b"
  shows "request pf c options =
           Inl (ApiError
             \<lparr> message =
                 (case b of
                    JObject fs \<Rightarrow>
                      (case map_of fs ''message'' of
                         Some (JString m) \<Rightarrow> m
                       | _ \<Rightarrow> (case map_of fs ''error'' of
                                 Some (JString m) \<Rightarrow> m
                               | _ \<Rightarrow> ''HTTP '' @ String_int (resp_status response) @ '' error''))
                  | JString t \<Rightarrow>
                      (if t = [] then ''HTTP '' @ String_int (resp_status response) @ '' error''
                       else t)
                  | _ \<Rightarrow> ''HTTP '' @ String_int (resp_status response) @ '' error''),
               status = resp_status response,
               err_method = method_name (req_method options),
               path = req_path options,
               body = b \<rparr>)"
  unfolding request_non_2xx [OF assms] extractErrorMessage_cases ..

text \<open>
  The empty JSON object with status 403 gives \<^verbatim>\<open>HTTP 403 error\<close>, as in the test-suite.
\<close>

theorem non_2xx_raises_api_error_witness:
  "request (mock_platform (Inr (mock_response 403 ''application/json'' (Inr (JObject [])) ''{}'')))
     TEST_CLIENT (with_options GET ''/test'' JUndefined None None)
   = Inl (ApiError \<lparr> message = ''HTTP 403 error'', status = 403, err_method = ''GET'',
                      path = ''/test'', body = JObject [] \<rparr>)"
proof -
  let ?r = "mock_response 403 ''application/json'' (Inr (JObject [])) ''{}''"
  have st: "resp_status ?r < 200 \<or> 299 < resp_status ?r"
    by (simp add: mock_response_def)
  have rb: "read_body ?r = Inr (JObject [])"
    by (simp add: read_body_def mock_response_def)
  show ?thesis
    using non_2xx_raises_api_error [OF mock_url [of _ GET JUndefined None] mock_fetch st rb]
    by (simp add: with_options_def mock_response_def String_int_403)
qed

section \<open>Query strings\<close>




section \<open>Validation of the configuration\<close>

text \<open>
  Claim C5: with a non-empty base URL and a non-empty API key the construction of the
  client succeeds; with an empty base URL or an empty API key it throws a Configuration
  error. The constructor is a function of the configuration alone, so nothing reaches the
  network before it throws, and the configuration is validated only there: no request
  raises a Configuration error.
\<close>

theorem constructor_validation:
  "(cfg_baseUrl config \<noteq> [] \<and> cfg_apiKey config \<noteq> []
      \<longrightarrow> (\<exists>c. HttpClient_constructor config = Inr c))
   \<and> (cfg_baseUrl config = [] \<or> cfg_apiKey config = []
      \<longrightarrow> (\<exists>m. HttpClient_constructor config = Inl (N8nConfigError m)))
   \<and> request pf c options \<noteq> Inl (N8nConfigError m)"
  using request_not_config [of pf c options m]
  by (simp add: HttpClient_constructor_def)

text \<open>
  The configuration of the test-suite, and the same with either field emptied.
\<close>

theorem constructor_validation_witness:
  "HttpClient_constructor TEST_CONFIG = Inr TEST_CLIENT
   \<and> (\<exists>m. HttpClient_constructor (TEST_CONFIG \<lparr> cfg_baseUrl := [] \<rparr>) = Inl (N8nConfigError m))
   \<and> (\<exists>m. HttpClient_constructor (TEST_CONFIG \<lparr> cfg_apiKey := [] \<rparr>) = Inl (N8nConfigError m))"
proof -
  have ok: "cfg_baseUrl TEST_CONFIG \<noteq> [] \<and> cfg_apiKey TEST_CONFIG \<noteq> []"
    by (simp add: TEST_CONFIG_def)
  have client: "HttpClient_constructor TEST_CONFIG = Inr c \<Longrightarrow> c = TEST_CLIENT" for c
    by (simp add: HttpClient_constructor_def TEST_CONFIG_def TEST_CLIENT_def
          strip_trailing_slashes_def)
  show ?thesis
    using constructor_validation [of TEST_CONFIG] ok client
          constructor_validation [of "TEST_CONFIG \<lparr> cfg_baseUrl := [] \<rparr>"]
          constructor_validation [of "TEST_CONFIG \<lparr> cfg_apiKey := [] \<rparr>"]
    by auto
qed

section \<open>The pagination envelope\<close>

text \<open>
  Claim C6, as stated: a list operation returns an envelope with the fields \<^verbatim>\<open>items\<close>
  and \<^verbatim>\<open>nextCursor\<close>. It fails: the envelope has the fields \<^verbatim>\<open>data\<close> and
  \<^verbatim>\<open>nextCursor\<close>.
\<close>

theorem list_envelope_has_no_items_field:
  "ExecutionsResource_list
     (mock_platform (Inr (mock_response 200 ''application/json''
        (Inr (JObject [(''data'', JArray []), (''nextCursor'', JString ''cursor123'')])) [])))
     TEST_CLIENT None None
   = Inr (JObject [(''data'', JArray []), (''nextCursor'', JString ''cursor123'')])
   \<and> ExecutionsResource_list
     (mock_platform (Inr (mock_response 200 ''application/json''
        (Inr (JObject [(''data'', JArray []), (''nextCursor'', JString ''cursor123'')])) [])))
     TEST_CLIENT None None
   \<noteq> Inr (JObject [(''items'', JArray []), (''nextCursor'', JString ''cursor123'')])"
  by code_simp

text \<open>
  Claim C6, amended: every list operation of a resource wrapper that paginates
  (executions, users, tags, credentials, workflows, variables, projects) returns the decoded JSON reshaped into an
  envelope with the fields \<^verbatim>\<open>data\<close> and \<^verbatim>\<open>nextCursor\<close>, taken from the fields of the same
  names of the response.
\<close>

theorem list_returns_data_envelope:
  assumes "response \<noteq> JUndefined" and "response \<noteq> JNull"
  shows "(HttpClient_get pf c ''/executions'' params options = Inr response \<longrightarrow>
            ExecutionsResource_list pf c params options =
              Inr (JObject [(''data'', get_prop response ''data''),
                            (''nextCursor'', get_prop response ''nextCursor'')]))
       \<and> (HttpClient_get pf c ''/users'' params options = Inr response \<longrightarrow>
            UsersResource_list pf c params options =
              Inr (JObject [(''data'', get_prop response ''data''),
                            (''nextCursor'', get_prop response ''nextCursor'')]))
       \<and> (HttpClient_get pf c ''/tags'' params options = Inr response \<longrightarrow>
            TagsResource_list pf c params options =
              Inr (JObject [(''data'', get_prop response ''data''),
                            (''nextCursor'', get_prop response ''nextCursor'')]))
       \<and> (HttpClient_get pf c ''/credentials'' params options = Inr response \<longrightarrow>
            CredentialsResource_list pf c params options =
              Inr (JObject [(''data'', get_prop response ''data''),
                            (''nextCursor'', get_prop response ''nextCursor'')]))
       \<and> (HttpClient_get pf c ''/workflows'' params options = Inr response \<longrightarrow>
            WorkflowsResource_list pf c params options =
              Inr (JObject [(''data'', get_prop response ''data''),
                            (''nextCursor'', get_prop response ''nextCursor'')]))
       \<and> (HttpClient_get pf c ''/variables'' params options = Inr response \<longrightarrow>
            VariablesResource_list pf c params options =
              Inr (JObject [(''data'', get_prop response ''data''),
                            (''nextCursor'', get_prop response ''nextCursor'')]))
       \<and> (HttpClient_get pf c ''/projects'' params options = Inr response \<longrightarrow>
            ProjectsResource_list pf c params options =
              Inr (JObject [(''data'', get_prop response ''data''),
                            (''nextCursor'', get_prop response ''nextCursor'')]))"
  by (simp add: ExecutionsResource_list_def UsersResource_list_def TagsResource_list_def
        CredentialsResource_list_def WorkflowsResource_list_def VariablesResource_list_def
        ProjectsResource_list_def list_result_envelope [OF assms])

text \<open>
  A page of executions with a cursor.
\<close>

theorem list_returns_data_envelope_witness:
  "ExecutionsResource_list
     (mock_platform (Inr (mock_response 200 ''application/json''
        (Inr (JObject [(''data'', JArray []), (''nextCursor'', JString ''cursor123'')])) [])))
     TEST_CLIENT None None
   = Inr (JObject [(''data'', JArray []), (''nextCursor'', JString ''cursor123'')])"
proof -
  let ?body = "JObject [(''data'', JArray []), (''nextCursor'', JString ''cursor123'')]"
  let ?pf = "mock_platform (Inr (mock_response 200 ''application/json'' (Inr ?body) []))"
  have got: "HttpClient_get ?pf TEST_CLIENT ''/executions'' None None = Inr ?body"
    by code_simp
  have "?body \<noteq> JUndefined" and "?body \<noteq> JNull"
    by simp_all
  from list_returns_data_envelope [OF this, of ?pf TEST_CLIENT None None] got
  show ?thesis by simp
qed

section \<open>Trailing slashes of the base URL\<close>

text \<open>
  Claim C7: a client constructed with a base URL followed by one or more slashes builds,
  for every path and query, the same request URL as the client constructed with the base
  URL itself.
\<close>

theorem trailing_slashes_same_url:
  assumes "HttpClient_constructor config = Inr c"
  shows "\<exists>c'. HttpClient_constructor
                (config \<lparr> cfg_baseUrl := cfg_baseUrl config @ replicate (Suc n) CHR ''/'' \<rparr>) = Inr c'
              \<and> buildUrl pf c' p query = buildUrl pf c p query"
proof -
  from assms have "cfg_baseUrl config \<noteq> []" and "cfg_apiKey config \<noteq> []"
    by (auto simp: HttpClient_constructor_def split: if_splits)
  with assms
  have "HttpClient_constructor
          (config \<lparr> cfg_baseUrl := cfg_baseUrl config @ replicate (Suc n) CHR ''/'' \<rparr>) = Inr c"
    using strip_trailing_slashes_append [of "cfg_baseUrl config" "Suc n"]
    by (simp add: HttpClient_constructor_def)
  then show ?thesis by blast
qed

text \<open>
  The base URL of the test-suite with one trailing slash.
\<close>

theorem trailing_slashes_same_url_witness:
  "\<exists>c'. HttpClient_constructor (TEST_CONFIG \<lparr> cfg_baseUrl := ''https://test-n8n.example.com/'' \<rparr>)
           = Inr c'
        \<and> buildUrl (mock_platform (Inl abort_error)) c' ''/test'' None
           = buildUrl (mock_platform (Inl abort_error)) TEST_CLIENT ''/test'' None"
proof -
  have "HttpClient_constructor TEST_CONFIG = Inr TEST_CLIENT"
    by (simp add: HttpClient_constructor_def TEST_CONFIG_def TEST_CLIENT_def
          strip_trailing_slashes_def)
  from trailing_slashes_same_url
         [OF this, of 0 "mock_platform (Inl abort_error)" "''/test''" None]
  show ?thesis by (simp add: TEST_CONFIG_def)
qed

section \<open>Status 204\<close>

text \<open>
  Claim C8: for every response with status 204 the call resolves to \<^verbatim>\<open>undefined\<close>,
  whatever the content type of the response and whatever reading its body would give.
\<close>

theorem no_content_resolves_undefined:
  assumes "buildUrl pf c (req_path options) (req_query options) = Inr url"
      and "fetch pf url (request_init pf c options) = Inr response"
      and "resp_status response = 204"
  shows "request pf c options = Inr JUndefined"
  using assms by (simp add: request_def try_block_def)

text \<open>
  A 204 response announced as JSON whose body cannot be read at all.
\<close>

theorem no_content_resolves_undefined_witness:
  "request (mock_platform
      (Inr \<lparr> resp_status = 204, resp_content_type = Some ''application/json'',
             resp_json = Inl syntax_error, resp_text = Inl abort_error \<rparr>))
     TEST_CLIENT (with_options DELETE ''/test'' JUndefined None None)
   = Inr JUndefined"
proof -
  let ?r = "\<lparr> resp_status = 204, resp_content_type = Some ''application/json'',
              resp_json = Inl syntax_error, resp_text = Inl abort_error \<rparr>"
  have st: "resp_status ?r = 204" by simp
  show ?thesis
    using no_content_resolves_undefined [OF mock_url [of _ DELETE JUndefined None] mock_fetch st]
    by simp
qed

section \<open>Falsy request bodies\<close>


section \<open>Empty text bodies\<close>

text \<open>
  Claim C10: for every response outside the 2xx range whose body is read as text, the
  message of the API error is \<^verbatim>\<open>HTTP {status} error\<close> when this text is empty, and the
  text itself only when it is not empty.
\<close>

theorem empty_text_body_fallback:
  assumes "buildUrl pf c (req_path options) (req_query options) = Inr url"
      and "fetch pf url (request_init pf c options) = Inr response"
      and "resp_status response < 200 \<or> 299 < resp_status response"
      and "case resp_content_type response of
             None \<Rightarrow> True
           | Some contentType \<Rightarrow> \<not> str_includes contentType ''application/json''"
      and "resp_text response = Inr t"
  shows "request pf c options =
           Inl (ApiError
             \<lparr> message = (if t = [] then ''HTTP '' @ String_int (resp_status response) @ '' error''
                          else t),
               status = resp_status response,
               err_method = method_name (req_method options),
               path = req_path options,
               body = JString t \<rparr>)"
proof -
  from assms(4,5) have "read_body response = Inr (JString t)"
    by (simp add: read_body_def split: option.splits)
  from request_non_2xx [OF assms(1,2,3) this] show ?thesis
    by (simp add: extractErrorMessage_cases)
qed

text \<open>
  An empty and a non-empty plain-text body with status 500.
\<close>

theorem empty_text_body_fallback_witness:
  "request (mock_platform (Inr (mock_response 500 ''text/plain'' (Inl syntax_error) [])))
     TEST_CLIENT (with_options GET ''/test'' JUndefined None None)
   = Inl (ApiError \<lparr> message = ''HTTP 500 error'', status = 500, err_method = ''GET'',
                      path = ''/test'', body = JString [] \<rparr>)
   \<and> request (mock_platform
        (Inr (mock_response 500 ''text/plain'' (Inl syntax_error) ''Plain text error'')))
     TEST_CLIENT (with_options GET ''/test'' JUndefined None None)
   = Inl (ApiError \<lparr> message = ''Plain text error'', status = 500, err_method = ''GET'',
                      path = ''/test'', body = JString ''Plain text error'' \<rparr>)"
proof -
  let ?r = "\<lambda>t. mock_response 500 ''text/plain'' (Inl syntax_error) t"
  have st: "resp_status (?r t) < 200 \<or> 299 < resp_status (?r t)" for t
    by (simp add: mock_response_def)
  have ct: "case resp_content_type (?r t) of
              None \<Rightarrow> True
            | Some contentType \<Rightarrow> \<not> str_includes contentType ''application/json''" for t
    by (simp add: mock_response_def)
  have tx: "resp_text (?r t) = Inr t" for t
    by (simp add: mock_response_def)
  show ?thesis
    using empty_text_body_fallback
            [OF mock_url [of _ GET JUndefined None] mock_fetch st [of "[]"] ct [of "[]"] tx [of "[]"]]
          empty_text_body_fallback
            [OF mock_url [of _ GET JUndefined None] mock_fetch st [of "''Plain text error''"]
                ct [of "''Plain text error''"] tx [of "''Plain text error''"]]
    by (simp add: with_options_def mock_response_def String_int_500)
qed

end
